theory Spec2Isabelle
  imports Complex_Main "HOL-Library.Word"
begin

unbundle bit_operations_syntax

section \<open>JavaScript values used by the node\<close>

text \<open>
  The node is one JavaScript file, \<^verbatim>\<open>node-red-contrib-noble.js\<close>. Its handlers can
  throw; a thrown exception is the left summand of the result.
\<close>

datatype js_error = ReferenceError | TypeError | RangeError

text \<open>
  A JavaScript number, with the three values that are not real numbers. A finite double
  is given by a real; division by zero, overflow to \<open>Infinity\<close>, underflow to zero and
  the propagation of \<open>Infinity\<close> and \<open>NaN\<close> are written out (see \<open>to_double\<close> below).
\<close>

datatype jsnum = Fin real | PosInf | NegInf | NaN

text \<open>
  The values an inbound message can carry: an object is the list of its own properties
  (as in a JSON document, the first entry of a key wins).
\<close>

datatype jsval =
    JUndefined
  | JNull
  | JBool bool
  | JNum jsnum
  | JStr string
  | JObj "(string \<times> jsval) list"

type_synonym js_object = "(string \<times> jsval) list"

text \<open>\<^verbatim>\<open>typeof v\<close>; note that \<^verbatim>\<open>typeof null\<close> is \<^verbatim>\<open>"object"\<close>.\<close>

fun typeof :: "jsval \<Rightarrow> string" where
  "typeof JUndefined = ''undefined''"
| "typeof JNull = ''object''"
| "typeof (JBool b) = ''boolean''"
| "typeof (JNum n) = ''number''"
| "typeof (JStr s) = ''string''"
| "typeof (JObj ps) = ''object''"

text \<open>\<^verbatim>\<open>o.k\<close> on an object: the own property, \<^verbatim>\<open>undefined\<close> when there is none.\<close>

definition get_prop :: "js_object \<Rightarrow> string \<Rightarrow> jsval" where
  "get_prop ps k = (case map_of ps k of None \<Rightarrow> JUndefined | Some v \<Rightarrow> v)"

text \<open>
  The method call \<^verbatim>\<open>v.hasOwnProperty(k)\<close>. Reading a property of \<^verbatim>\<open>null\<close> or
  \<^verbatim>\<open>undefined\<close> throws a TypeError. On an object the method is inherited from
  \<^verbatim>\<open>Object.prototype\<close>, unless the object has an own property of that name: the values
  of \<^typ>\<open>jsval\<close> hold no function, so calling it throws a TypeError. The primitive
  cases are never reached by the node, which tests \<^verbatim>\<open>typeof\<close> first; the key it asks
  for, \<^verbatim>\<open>scan\<close>, is no own property of a boxed boolean, number or string.
\<close>

fun call_hasOwnProperty :: "jsval \<Rightarrow> string \<Rightarrow> js_error + bool" where
  "call_hasOwnProperty JUndefined k = Inl TypeError"
| "call_hasOwnProperty JNull k = Inl TypeError"
| "call_hasOwnProperty (JObj ps) k =
     (if map_of ps ''hasOwnProperty'' \<noteq> None then Inl TypeError
      else Inr (map_of ps k \<noteq> None))"
| "call_hasOwnProperty v k = Inr False"

section \<open>Buffers\<close>

text \<open>
  Node's \<^verbatim>\<open>Buffer\<close> is a sequence of bytes. The four methods the node calls are
  modelled from Node's library: \<^verbatim>\<open>slice\<close> clamps its end to the length,
  \<^verbatim>\<open>toString('hex')\<close> writes two lowercase digits per byte, the readers throw a
  RangeError when the offset leaves the buffer.
\<close>

type_synonym byte = "8 word"
type_synonym buffer = "byte list"

definition buf_slice :: "buffer \<Rightarrow> nat \<Rightarrow> nat \<Rightarrow> buffer" where
  "buf_slice buf start fin = take (min fin (length buf) - start) (drop start buf)"

definition hex_digit :: "nat \<Rightarrow> char" where
  "hex_digit n = ''0123456789abcdef'' ! n"

definition toHex :: "byte \<Rightarrow> string" where
  "toHex b = [hex_digit (unat b div 16), hex_digit (unat b mod 16)]"

definition toString_hex :: "buffer \<Rightarrow> string" where
  "toString_hex buf = concat (map toHex buf)"

definition readUInt16BE :: "buffer \<Rightarrow> nat \<Rightarrow> js_error + int" where
  "readUInt16BE buf off =
     (if off + 2 \<le> length buf
      then Inr (uint (buf ! off) * 2 ^ 8 + uint (buf ! (off + 1)))
      else Inl RangeError)"

definition readInt8 :: "buffer \<Rightarrow> nat \<Rightarrow> js_error + int" where
  "readInt8 buf off =
     (if off + 1 \<le> length buf
      then (let v = uint (buf ! off)
            in Inr (if v AND 128 = 0 then v else (255 - v + 1) * (- 1)))
      else Inl RangeError)"

section \<open>Arithmetic of the accuracy expression\<close>

text \<open>
  The double an arithmetic operation returns when its exact result is the real \<open>x\<close>.
  Rounding to nearest gives \<open>Infinity\<close> from \<open>2^1024 - 2^970\<close> on (half a unit in the
  last place above the largest double), and zero up to \<open>2^-1075\<close> (half the smallest
  subnormal). Between the two thresholds \<open>Fin x\<close> stands for the double nearest to \<open>x\<close>:
  the rounding to 53 significant bits is not modelled, nor is the sign of a zero.
\<close>

definition double_overflow :: real where
  "double_overflow = 2 ^ 1024 - 2 ^ 970"

definition double_underflow :: real where
  "double_underflow = 1 / 2 ^ 1075"

definition to_double :: "real \<Rightarrow> jsnum" where
  "to_double x =
     (if double_overflow \<le> x then PosInf
      else if x \<le> - double_overflow then NegInf
      else if \<bar>x\<bar> \<le> double_underflow then Fin 0
      else Fin x)"

text \<open>
  \<^verbatim>\<open>x / d\<close> for a finite divisor \<open>d\<close> that is not the negative zero (the divisor at
  line 66 is the integer \<^verbatim>\<open>readInt8\<close> returned).
\<close>

fun js_div :: "jsnum \<Rightarrow> real \<Rightarrow> jsnum" where
  "js_div (Fin a) d =
     (if d = 0 then (if a = 0 then NaN else if 0 < a then PosInf else NegInf)
      else to_double (a / d))"
| "js_div PosInf d = (if 0 \<le> d then PosInf else NegInf)"
| "js_div NegInf d = (if 0 \<le> d then NegInf else PosInf)"
| "js_div NaN d = NaN"

text \<open>\<^verbatim>\<open>x - c\<close> for a finite \<open>c\<close>.\<close>

fun js_sub :: "jsnum \<Rightarrow> real \<Rightarrow> jsnum" where
  "js_sub (Fin a) c = to_double (a - c)"
| "js_sub PosInf c = PosInf"
| "js_sub NegInf c = NegInf"
| "js_sub NaN c = NaN"

text \<open>\<^verbatim>\<open>c * x\<close> for a finite, positive \<open>c\<close>.\<close>

fun js_mul :: "real \<Rightarrow> jsnum \<Rightarrow> jsnum" where
  "js_mul c (Fin a) = to_double (c * a)"
| "js_mul c PosInf = PosInf"
| "js_mul c NegInf = NegInf"
| "js_mul c NaN = NaN"

text \<open>\<^verbatim>\<open>Math.pow(b, y)\<close> for a finite base \<open>b > 1\<close>.\<close>

fun Math_pow :: "real \<Rightarrow> jsnum \<Rightarrow> jsnum" where
  "Math_pow b (Fin y) = to_double (b powr y)"
| "Math_pow b PosInf = PosInf"
| "Math_pow b NegInf = Fin 0"
| "Math_pow b NaN = NaN"

text \<open>\<^verbatim>\<open>x < c\<close> for a finite \<open>c\<close>: every comparison with \<open>NaN\<close> is false.\<close>

fun js_lt :: "jsnum \<Rightarrow> real \<Rightarrow> bool" where
  "js_lt (Fin a) c = (a < c)"
| "js_lt PosInf c = False"
| "js_lt NegInf c = True"
| "js_lt NaN c = False"

section \<open>Data of the node\<close>

text \<open>
  The advertisement object of the adapter: the local name, the manufacturer data (a
  \<^verbatim>\<open>Buffer\<close>, when the advertisement has any) and the rest of the advertised data.
\<close>

record advertisement =
  adv_localName :: "string option"
  adv_manufacturerData :: "buffer option"
  adv_raw :: buffer

text \<open>
  The object a \<^verbatim>\<open>discover\<close> listener is called with, by the properties the handler
  reads; \<open>p_manufacturerData\<close> is the property \<^verbatim>\<open>peripheral.manufacturerData\<close> of the
  object itself, which line 58 tests.
\<close>

record peripheral =
  p_uuid :: string
  p_address :: string
  p_advertisement :: advertisement
  p_rssi :: int
  p_manufacturerData :: "buffer option"

text \<open>
  The peripheral the adapter library (\<^verbatim>\<open>noble\<close>, not part of this repository) builds
  for a discovery, from the identifier, the address, the advertisement and the RSSI it
  has received. The manufacturer data is a property of the advertisement; the peripheral
  has no property \<^verbatim>\<open>manufacturerData\<close> of its own.
\<close>

definition noble_peripheral :: "string \<Rightarrow> string \<Rightarrow> advertisement \<Rightarrow> int \<Rightarrow> peripheral" where
  "noble_peripheral u a adv r =
     \<lparr>p_uuid = u, p_address = a, p_advertisement = adv, p_rssi = r,
      p_manufacturerData = None\<rparr>"

record payload =
  pl_peripheralUuid :: string
  pl_localName :: "string option"

text \<open>The message a discovery sends; the last six fields are set for a beacon only.\<close>

record discovery_msg =
  msg_payload :: payload
  peripheralUuid :: string
  address :: string
  localName :: "string option"
  detectedAt :: nat
  detectedBy :: string
  advertisement :: advertisement
  rssi :: int
  timestamp :: string
  manufacturerUuid :: "string option"
  major :: "int option"
  minor :: "int option"
  measuredPower :: "int option"
  accuracy :: "jsnum option"
  proximity :: "string option"

record status_msg =
  statusUpdate :: bool
  error :: bool
  stateChange :: bool
  state :: string

datatype out_msg = Discovery discovery_msg | Status status_msg

datatype adapter_call =
    StartScanning "string list" bool
  | StopScanning
  | RemoveAllListeners

datatype warning =
    WarnStoppedByAdapter
  | WarnUnableToStart string
  | WarnIncorrectInput

datatype log_entry = LogStarted "string list" bool | LogStopped

datatype node_status = GreenDotStarted | RedRingStopped

text \<open>
  The state of one node and of what it has done to its collaborators: the fields of
  \<^verbatim>\<open>node\<close>, the closure variable \<^verbatim>\<open>machineId\<close>, \<^verbatim>\<open>noble.state\<close>, the messages
  passed to \<^verbatim>\<open>node.send\<close>, the calls made on \<^verbatim>\<open>noble\<close>, the warnings and log
  lines, the completion callbacks the adapter holds and has not yet called, the closure
  given to \<^verbatim>\<open>setTimeout\<close> (its delay and the message it captured) while it has not
  run, and whether the listeners registered on \<^verbatim>\<open>noble\<close> are still attached.
  \<^verbatim>\<open>node.scanning\<close> is never initialised (line 44 declares a local variable of the
  same name that nothing reads), so it starts as \<^verbatim>\<open>undefined\<close>, which every test of
  the source treats as false.
\<close>

record node_state =
  duplicates :: bool
  uuids :: "string list"
  machineId :: string
  scanning :: bool
  noble_state :: string
  sent :: "out_msg list"
  adapter_calls :: "adapter_call list"
  warnings :: "warning list"
  logs :: "log_entry list"
  status :: "node_status option"
  pending_start :: nat
  pending_stop :: nat
  timer :: "(nat \<times> status_msg) option"
  noble_listening :: bool

record config =
  cfg_duplicates :: bool
  cfg_uuids :: "string option"

text \<open>
  The global scope a free identifier is looked up in. The file declares no variable
  \<^verbatim>\<open>rssi\<close>, so the read at line 66 goes to the global object; \<open>None\<close> is an
  identifier that is not defined there (reading it throws a ReferenceError).
\<close>

type_synonym globals = "string \<Rightarrow> jsnum option"

section \<open>The discover handler (lines 46 to 90)\<close>

record beacon =
  b_proxUuid :: string
  b_major :: int
  b_minor :: int
  b_measuredPower :: int

text \<open>Lines 61 to 64: the four reads of the manufacturer data.\<close>

definition decode :: "buffer \<Rightarrow> js_error + beacon" where
  "decode md =
     (let proxUuid = toString_hex (buf_slice md 4 20)
      in case readUInt16BE md 20 of
           Inl e \<Rightarrow> Inl e
         | Inr mj \<Rightarrow>
             (case readUInt16BE md 22 of
                Inl e \<Rightarrow> Inl e
              | Inr mn \<Rightarrow>
                  (case readInt8 md 24 of
                     Inl e \<Rightarrow> Inl e
                   | Inr mp \<Rightarrow>
                       Inr \<lparr>b_proxUuid = proxUuid, b_major = mj, b_minor = mn,
                            b_measuredPower = mp\<rparr>)))"

text \<open>Line 66, with the value of the identifier \<^verbatim>\<open>rssi\<close> as the first argument.\<close>

definition accuracy_expr :: "jsnum \<Rightarrow> int \<Rightarrow> jsnum" where
  "accuracy_expr r mp = Math_pow 12 (js_mul 1.5 (js_sub (js_div r (of_int mp)) 1))"

text \<open>Lines 69 to 77.\<close>

definition classify :: "jsnum \<Rightarrow> string" where
  "classify acc =
     (if js_lt acc 0 then ''unknown''
      else if js_lt acc 0.5 then ''immediate''
      else if js_lt acc 4.0 then ''near''
      else ''far'')"

definition send :: "out_msg \<Rightarrow> node_state \<Rightarrow> node_state" where
  "send m s = s\<lparr>sent := sent s @ [m]\<rparr>"

text \<open>
  Lines 47 to 55: the message before the beacon test. The two readings of the clock
  (the milliseconds of \<^verbatim>\<open>new Date().getTime()\<close> and the string \<^verbatim>\<open>dateformat\<close>
  returns) come with the notification.
\<close>

definition base_msg :: "peripheral \<Rightarrow> nat \<Rightarrow> string \<Rightarrow> node_state \<Rightarrow> discovery_msg" where
  "base_msg p now stamp s =
     \<lparr>msg_payload = \<lparr>pl_peripheralUuid = p_uuid p,
                      pl_localName = adv_localName (p_advertisement p)\<rparr>,
      peripheralUuid = p_uuid p,
      address = p_address p,
      localName = adv_localName (p_advertisement p),
      detectedAt = now,
      detectedBy = machineId s,
      advertisement = p_advertisement p,
      rssi = p_rssi p,
      timestamp = stamp,
      manufacturerUuid = None, major = None, minor = None, measuredPower = None,
      accuracy = None, proximity = None\<rparr>"

definition on_discover ::
  "globals \<Rightarrow> peripheral \<Rightarrow> nat \<Rightarrow> string \<Rightarrow> node_state \<Rightarrow> js_error + node_state" where
  "on_discover g p now stamp s =
     (let msg = base_msg p now stamp s
      in case p_manufacturerData p of
           None \<Rightarrow> Inr (send (Discovery msg) s)
         | Some md \<Rightarrow>
             if 25 \<le> length md then
               (case decode md of
                  Inl e \<Rightarrow> Inl e
                | Inr b \<Rightarrow>
                    (case g ''rssi'' of
                       None \<Rightarrow> Inl ReferenceError
                     | Some r \<Rightarrow>
                         (let acc = accuracy_expr r (b_measuredPower b);
                              prox = classify acc
                          in Inr (send (Discovery
                                (msg\<lparr>manufacturerUuid := Some (b_proxUuid b),
                                     major := Some (b_major b),
                                     minor := Some (b_minor b),
                                     measuredPower := Some (b_measuredPower b),
                                     accuracy := Some acc,
                                     proximity := Some prox\<rparr>)) s))))
             else Inr (send (Discovery msg) s))"

section \<open>The scan controller (lines 93 to 188)\<close>

text \<open>The callback of lines 104 to 108; it takes no parameter, so an error passed to it is ignored.\<close>

definition startScanning_done :: "node_state \<Rightarrow> node_state" where
  "startScanning_done s =
     s\<lparr>logs := logs s @ [LogStarted (uuids s) (duplicates s)],
       status := Some GreenDotStarted,
       scanning := True\<rparr>"

text \<open>
  The adapter's \<^verbatim>\<open>noble.startScanning(uuids, duplicates, callback)\<close>, as the library
  behaves: when the adapter is powered on it keeps the callback for the \<^verbatim>\<open>scanStart\<close>
  it will emit later; in every other state it calls the callback at once, with an
  error. \<^verbatim>\<open>noble.stopScanning(callback)\<close> always keeps the callback for the later
  \<^verbatim>\<open>scanStop\<close>.
\<close>

definition noble_startScanning :: "node_state \<Rightarrow> node_state" where
  "noble_startScanning s =
     (let s1 = s\<lparr>adapter_calls := adapter_calls s @ [StartScanning (uuids s) (duplicates s)]\<rparr>
      in if noble_state s1 = ''poweredOn''
         then s1\<lparr>pending_start := Suc (pending_start s1)\<rparr>
         else startScanning_done s1)"

definition noble_stopScanning :: "node_state \<Rightarrow> node_state" where
  "noble_stopScanning s =
     s\<lparr>adapter_calls := adapter_calls s @ [StopScanning],
       pending_stop := Suc (pending_stop s)\<rparr>"

text \<open>
  \<^verbatim>\<open>startScan(stateChange, error)\<close>, lines 93 to 110. The function itself leaves
  \<^verbatim>\<open>node.scanning\<close> as it is: only the callback sets it.
\<close>

definition startScan :: "bool \<Rightarrow> bool \<Rightarrow> node_state \<Rightarrow> node_state" where
  "startScan sc err s =
     (if \<not> scanning s then
        (let msg = \<lparr>statusUpdate = True, error = err, stateChange = sc,
                    state = noble_state s\<rparr>;
             s1 = send (Status msg) s
         in noble_startScanning s1)
      else s)"

text \<open>\<^verbatim>\<open>stopScan(stateChange, error)\<close>, lines 113 to 133.\<close>

definition stopScan :: "bool \<Rightarrow> bool \<Rightarrow> node_state \<Rightarrow> node_state" where
  "stopScan sc err s =
     (if scanning s then
        (let msg = \<lparr>statusUpdate = True, error = err, stateChange = sc,
                    state = noble_state s\<rparr>;
             s1 = send (Status msg) s;
             s2 = noble_stopScanning s1
         in if err then s2\<lparr>warnings := warnings s2 @ [WarnStoppedByAdapter]\<rparr> else s2)
      else s)"

text \<open>The callback of lines 124 to 128.\<close>

definition stopScanning_done :: "node_state \<Rightarrow> node_state" where
  "stopScanning_done s =
     s\<lparr>logs := logs s @ [LogStopped],
       status := Some RedRingStopped,
       scanning := False\<rparr>"

text \<open>The \<^verbatim>\<open>stateChange\<close> listener, lines 136 to 144.\<close>

definition on_stateChange :: "string \<Rightarrow> node_state \<Rightarrow> node_state" where
  "on_stateChange st s =
     (if st = ''poweredOn'' then startScan True False s
      else if scanning s then stopScan True True s
      else s)"

text \<open>\<^verbatim>\<open>n.uuids.split(',')\<close>, line 39.\<close>

fun split_comma :: "string \<Rightarrow> string list" where
  "split_comma [] = [Nil]"
| "split_comma (c # cs) =
     (if c = CHR '','' then [] # split_comma cs
      else (case split_comma cs of
              [] \<Rightarrow> [c # Nil]
            | w # ws \<Rightarrow> (c # w) # ws))"

text \<open>
  The constructor \<^verbatim>\<open>NobleScan(n)\<close>, lines 31 to 164, run with the host name and the
  adapter state it finds: it copies the configuration, registers the two listeners on
  \<^verbatim>\<open>noble\<close>, and either starts the scan or arms the timer of line 159 with the message
  built at line 151.
\<close>

definition NobleScan :: "config \<Rightarrow> string \<Rightarrow> string \<Rightarrow> node_state" where
  "NobleScan n hostname st =
     (let s0 = \<lparr>duplicates = cfg_duplicates n,
                uuids = (case cfg_uuids n of
                           None \<Rightarrow> []
                         | Some u \<Rightarrow> if u \<noteq> [] then split_comma u else []),
                machineId = hostname,
                scanning = False,
                noble_state = st,
                sent = [],
                adapter_calls = [],
                warnings = [],
                logs = [],
                status = None,
                pending_start = 0,
                pending_stop = 0,
                timer = None,
                noble_listening = True\<rparr>
      in if st = ''poweredOn'' then startScan False False s0
         else (let msg = \<lparr>statusUpdate = True, error = True, stateChange = False,
                          state = noble_state s0\<rparr>
               in s0\<lparr>timer := Some (3000, msg),
                     warnings := warnings s0 @ [WarnUnableToStart (noble_state s0)]\<rparr>))"

text \<open>The closure of line 159, run when the timer fires.\<close>

definition timer_fired :: "node_state \<Rightarrow> node_state" where
  "timer_fired s =
     (case timer s of
        None \<Rightarrow> s
      | Some (delay, msg) \<Rightarrow> send (Status msg) (s\<lparr>timer := None\<rparr>))"

definition warn :: "warning \<Rightarrow> node_state \<Rightarrow> node_state" where
  "warn w s = s\<lparr>warnings := warnings s @ [w]\<rparr>"

text \<open>The \<^verbatim>\<open>input\<close> listener, lines 167 to 178; \<open>m\<close> is the message object.\<close>

definition on_input :: "js_object \<Rightarrow> node_state \<Rightarrow> js_error + node_state" where
  "on_input m s =
     (case call_hasOwnProperty (JObj m) ''payload'' of
        Inl e \<Rightarrow> Inl e
      | Inr has_payload \<Rightarrow>
          if has_payload \<and> typeof (get_prop m ''payload'') = ''object'' then
            (case call_hasOwnProperty (get_prop m ''payload'') ''scan'' of
               Inl e \<Rightarrow> Inl e
             | Inr has_scan \<Rightarrow>
                 if has_scan then
                   (case get_prop m ''payload'' of
                      JObj ps \<Rightarrow>
                        if get_prop ps ''scan'' = JBool True
                        then Inr (startScan False False s)
                        else if get_prop ps ''scan'' = JBool False
                        then Inr (stopScan False False s)
                        else Inr (warn WarnIncorrectInput s)
                    | _ \<Rightarrow> Inr (warn WarnIncorrectInput s))
                 else Inr (warn WarnIncorrectInput s))
          else Inr (warn WarnIncorrectInput s))"

text \<open>
  The adapter's \<^verbatim>\<open>noble.removeAllListeners()\<close>: it removes every listener of every
  event, the two the constructor registered and the completion callbacks the adapter
  still holds, which are therefore never called.
\<close>

definition noble_removeAllListeners :: "node_state \<Rightarrow> node_state" where
  "noble_removeAllListeners s =
     s\<lparr>adapter_calls := adapter_calls s @ [RemoveAllListeners],
       noble_listening := False,
       pending_start := 0,
       pending_stop := 0\<rparr>"

text \<open>The \<^verbatim>\<open>close\<close> listener, lines 181 to 188.\<close>

definition on_close :: "node_state \<Rightarrow> node_state" where
  "on_close s = noble_removeAllListeners (stopScan False False s)"

section \<open>The node as a machine driven by its environment\<close>

text \<open>
  Everything that can happen to a constructed node: a notification of the adapter (a
  discovery, with the two clock readings; a state change, which \<^verbatim>\<open>noble\<close> stores in
  \<^verbatim>\<open>noble.state\<close> before it calls the listeners), an inbound message, the adapter
  completing a start or a stop whose callback it holds, the timer of line 159 firing, and
  the shutdown. A handler that throws ends the run with the exception.
\<close>

datatype event =
    Discover peripheral nat string
  | StateChange string
  | Input js_object
  | ScanStarted
  | ScanStopped
  | TimerFired
  | Close

fun step :: "globals \<Rightarrow> event \<Rightarrow> node_state \<Rightarrow> js_error + node_state" where
  "step g (Discover p now stamp) s =
     (if noble_listening s then on_discover g p now stamp s else Inr s)"
| "step g (StateChange st) s =
     (let s1 = s\<lparr>noble_state := st\<rparr>
      in if noble_listening s then Inr (on_stateChange st s1) else Inr s1)"
| "step g (Input m) s = on_input m s"
| "step g ScanStarted s =
     (if 0 < pending_start s
      then Inr (startScanning_done (s\<lparr>pending_start := pending_start s - 1\<rparr>))
      else Inr s)"
| "step g ScanStopped s =
     (if 0 < pending_stop s
      then Inr (stopScanning_done (s\<lparr>pending_stop := pending_stop s - 1\<rparr>))
      else Inr s)"
| "step g TimerFired s = Inr (timer_fired s)"
| "step g Close s = Inr (on_close s)"

fun run :: "globals \<Rightarrow> event list \<Rightarrow> node_state \<Rightarrow> js_error + node_state" where
  "run g [] s = Inr s"
| "run g (ev # evs) s =
     (case step g ev s of
        Inl e \<Rightarrow> Inl e
      | Inr s' \<Rightarrow> run g evs s')"

text \<open>The calls of \<^verbatim>\<open>noble.startScanning\<close> and of \<^verbatim>\<open>noble.stopScanning\<close> made so far.\<close>

fun is_start :: "adapter_call \<Rightarrow> bool" where
  "is_start (StartScanning us d) = True"
| "is_start c = False"

definition start_calls :: "node_state \<Rightarrow> nat" where
  "start_calls s = length (filter is_start (adapter_calls s))"

definition stop_calls :: "node_state \<Rightarrow> nat" where
  "stop_calls s = length (filter (\<lambda>c. c = StopScanning) (adapter_calls s))"

text \<open>The global scope of a Node process: the identifier \<^verbatim>\<open>rssi\<close> is not defined.\<close>

definition node_globals :: globals where
  "node_globals = (\<lambda>x. None)"

section \<open>What the specification says, and the inputs used below\<close>

text \<open>
  The specification's reading of a proximity UUID: lowercase hexadecimal digits, two per
  byte, with no separator. \<open>parse_hex\<close> accepts exactly such strings and gives the bytes
  back; an uppercase digit, a separator or an odd length give \<open>None\<close>.
\<close>

definition hex_value :: "char \<Rightarrow> nat option" where
  "hex_value c =
     (let n = (of_char c :: nat)
      in if 48 \<le> n \<and> n \<le> 57 then Some (n - 48)
         else if 97 \<le> n \<and> n \<le> 102 then Some (n - 87)
         else None)"

fun parse_hex :: "string \<Rightarrow> buffer option" where
  "parse_hex [] = Some []"
| "parse_hex [c] = None"
| "parse_hex (c # d # cs) =
     (case hex_value c of
        None \<Rightarrow> None
      | Some h \<Rightarrow>
          (case hex_value d of
             None \<Rightarrow> None
           | Some l \<Rightarrow>
               (case parse_hex cs of
                  None \<Rightarrow> None
                | Some bs \<Rightarrow> Some (of_nat (16 * h + l) # bs))))"


text \<open>
  The 25 bytes of the specification's example (section 8) behind the usual four-byte
  prefix of the beacon format; a peripheral the adapter has seen advertising them at
  -60 dBm; and an object that carries the same bytes in a property of its own, as
  line 58 expects.
\<close>

definition example_md :: buffer where
  "example_md =
     [0x4C, 0x00, 0x02, 0x15,
      0x01, 0x02, 0x03, 0x04, 0x05, 0x06, 0x07, 0x08,
      0x09, 0x0A, 0x0B, 0x0C, 0x0D, 0x0E, 0x0F, 0x10,
      0x00, 0x2A, 0x00, 0x01, 0xC4]"

definition example_peripheral :: peripheral where
  "example_peripheral =
     noble_peripheral ''c0ffee'' ''c0:ff:ee:00:00:01''
       \<lparr>adv_localName = Some ''tag'', adv_manufacturerData = Some example_md, adv_raw = []\<rparr>
       (- 60)"

definition top_level_peripheral :: peripheral where
  "top_level_peripheral = example_peripheral\<lparr>p_manufacturerData := Some example_md\<rparr>"

definition example_config :: config where
  "example_config = \<lparr>cfg_duplicates = False, cfg_uuids = Some ''feaa,180f''\<rparr>"

text \<open>The two commands of the inbound interface, and the message of section 8 that is neither.\<close>

definition scan_on :: js_object where
  "scan_on = [(''payload'', JObj [(''scan'', JBool True)])]"

definition scan_off :: js_object where
  "scan_off = [(''payload'', JObj [(''scan'', JBool False)])]"

definition enableScan_yes :: js_object where
  "enableScan_yes = [(''payload'', JObj [(''enableScan'', JStr ''yes'')])]"

definition null_payload :: js_object where
  "null_payload = [(''payload'', JNull)]"

text \<open>The inbound messages the specification recognises: an object payload with a boolean \<^verbatim>\<open>scan\<close>.\<close>

definition is_scan_command :: "js_object \<Rightarrow> bool" where
  "is_scan_command m =
     (case map_of m ''payload'' of
        Some (JObj ps) \<Rightarrow> (case map_of ps ''scan'' of Some (JBool b) \<Rightarrow> True | _ \<Rightarrow> False)
      | _ \<Rightarrow> False)"

text \<open>
  A node that is scanning: constructed with the adapter powered on, after the adapter has
  confirmed the start.
\<close>

definition example_scanning :: node_state where
  "example_scanning =
     startScanning_done ((NobleScan example_config ''host'' ''poweredOn'')\<lparr>pending_start := 0\<rparr>)"

text \<open>The same node stopped again by a command, after the adapter has confirmed the stop.\<close>

definition example_stopped :: node_state where
  "example_stopped =
     stopScanning_done ((stopScan False False example_scanning)\<lparr>pending_stop := 0\<rparr>)"

text \<open>The message built at line 151 for an adapter state \<open>st\<close>.\<close>

definition not_ready_msg :: "string \<Rightarrow> status_msg" where
  "not_ready_msg st = \<lparr>statusUpdate = True, error = True, stateChange = False, state = st\<rparr>"

section \<open>Bytes\<close>

lemma byte_bounds: "0 \<le> uint (b::byte) \<and> uint b < 256"
  using uint_lt2p[of b] by simp

lemma unat_byte_lt: "unat (b::byte) < 256"
  using unsigned_less[of b, where ?'a=nat] by simp

lemma twos_complement_byte:
  "(let v = uint (b::byte) in (if v AND 128 = 0 then v else (255 - v + 1) * (- 1))) = sint b"
proof -
  have "uint b AND 128 = 0 \<longleftrightarrow> \<not> bit b 7"
    by (simp add: and_exp_eq_0_iff_not_bit[of "uint b" 7, simplified] bit_uint_iff)
  thus ?thesis
    using byte_bounds[of b]
    by (simp add: Let_def sint_uint signed_take_bit_eq_if_positive signed_take_bit_eq_if_negative
       signed_take_bit_eq_take_bit_minus take_bit_eq_mod bit_uint_iff)
qed

lemma big_endian_u16:
  "uint (a::byte) * 2 ^ 8 + uint (b::byte) = uint (word_cat a b :: 16 word)"
proof -
  have "uint (word_cat a b :: 16 word) = (concat_bit 8 (uint b) (uint a)) mod 2 ^ 16"
    unfolding word_cat_eq' uint_word_of_int by simp
  also have "\<dots> = (uint b + uint a * 256) mod 65536"
    using byte_bounds[of b] by (simp add: concat_bit_eq take_bit_eq_mod push_bit_eq_mult)
  also have "\<dots> = uint b + uint a * 256"
    using byte_bounds[of a] byte_bounds[of b] by simp
  finally show ?thesis by simp
qed

lemma hex_digits_table: "list_all (\<lambda>n. hex_value (hex_digit n) = Some n) [0..<16]"
  by code_simp

lemma hex_value_digit: "n < 16 \<Longrightarrow> hex_value (hex_digit n) = Some n"
  using hex_digits_table by (simp add: list_all_iff)

lemma parse_toHex:
  "parse_hex (toHex b @ cs) = (case parse_hex cs of None \<Rightarrow> None | Some bs \<Rightarrow> Some (b # bs))"
proof -
  have "unat b div 16 < 16" using unat_byte_lt[of b] by simp
  moreover have "unat b mod 16 < 16" by simp
  moreover have "(of_nat (16 * (unat b div 16) + unat b mod 16) :: byte) = b"
    by simp
  ultimately show ?thesis
    by (simp add: toHex_def hex_value_digit split: option.splits)
qed

lemma parse_toString_hex: "parse_hex (toString_hex bs) = Some bs"
  by (induction bs) (simp_all add: toString_hex_def parse_toHex)

lemma length_toString_hex: "length (toString_hex bs) = 2 * length bs"
  by (induction bs) (simp_all add: toString_hex_def toHex_def)

section \<open>The payload decoder\<close>

lemma decode_ok:
  assumes "25 \<le> length md"
  shows "decode md =
     Inr \<lparr>b_proxUuid = toString_hex (take 16 (drop 4 md)),
          b_major = uint (word_cat (md ! 20) (md ! 21) :: 16 word),
          b_minor = uint (word_cat (md ! 22) (md ! 23) :: 16 word),
          b_measuredPower = sint (md ! 24)\<rparr>"
proof -
  have s: "buf_slice md 4 20 = take 16 (drop 4 md)"
    using assms by (simp add: buf_slice_def min_def)
  have a: "readUInt16BE md 20 = Inr (uint (word_cat (md ! 20) (md ! 21) :: 16 word))"
    using assms big_endian_u16[of "md ! 20" "md ! 21"] by (simp add: readUInt16BE_def)
  have b: "readUInt16BE md 22 = Inr (uint (word_cat (md ! 22) (md ! 23) :: 16 word))"
    using assms big_endian_u16[of "md ! 22" "md ! 23"] by (simp add: readUInt16BE_def)
  have c: "readInt8 md 24 = Inr (sint (md ! 24))"
    using assms twos_complement_byte[of "md ! 24"] by (simp add: readInt8_def Let_def)
  show ?thesis
    by (simp add: decode_def s a b c)
qed

text \<open>
  Claim C4. For every manufacturer-data buffer of at least 25 bytes the four reads of
  lines 61 to 64 succeed, and they give: as proximity UUID a string of 32 lowercase
  hexadecimal digits without separators that reads back as the bytes 4 to 19; as major
  and minor the big-endian unsigned 16-bit values of the bytes 20, 21 and 22, 23; as
  measured power the byte 24 read as a two's-complement signed byte. In particular the
  25-byte example of the specification, behind any four leading bytes, decodes to
  \<^verbatim>\<open>0102030405060708090a0b0c0d0e0f10\<close>, major 42, minor 1, measured power -60.
\<close>

theorem decoder_extracts_fields:
  "(25 \<le> length md \<longrightarrow>
      (\<exists>b. decode md = Inr b \<and>
           parse_hex (b_proxUuid b) = Some (take 16 (drop 4 md)) \<and>
           length (b_proxUuid b) = 32 \<and>
           b_major b = uint (word_cat (md ! 20) (md ! 21) :: 16 word) \<and>
           b_minor b = uint (word_cat (md ! 22) (md ! 23) :: 16 word) \<and>
           b_measuredPower b = sint (md ! 24))) \<and>
   decode [h0, h1, h2, h3,
           0x01, 0x02, 0x03, 0x04, 0x05, 0x06, 0x07, 0x08,
           0x09, 0x0A, 0x0B, 0x0C, 0x0D, 0x0E, 0x0F, 0x10,
           0x00, 0x2A, 0x00, 0x01, 0xC4] =
     Inr \<lparr>b_proxUuid = ''0102030405060708090a0b0c0d0e0f10'',
          b_major = 42, b_minor = 1, b_measuredPower = - 60\<rparr>"
proof (intro conjI impI)
  assume len: "25 \<le> length md"
  show "\<exists>b. decode md = Inr b \<and>
           parse_hex (b_proxUuid b) = Some (take 16 (drop 4 md)) \<and>
           length (b_proxUuid b) = 32 \<and>
           b_major b = uint (word_cat (md ! 20) (md ! 21) :: 16 word) \<and>
           b_minor b = uint (word_cat (md ! 22) (md ! 23) :: 16 word) \<and>
           b_measuredPower b = sint (md ! 24)"
    using len by (simp add: decode_ok parse_toString_hex length_toString_hex)
next
  show "decode [h0, h1, h2, h3,
           0x01, 0x02, 0x03, 0x04, 0x05, 0x06, 0x07, 0x08,
           0x09, 0x0A, 0x0B, 0x0C, 0x0D, 0x0E, 0x0F, 0x10,
           0x00, 0x2A, 0x00, 0x01, 0xC4] =
     Inr \<lparr>b_proxUuid = ''0102030405060708090a0b0c0d0e0f10'',
          b_major = 42, b_minor = 1, b_measuredPower = - 60\<rparr>"
    by (simp add: decode_def buf_slice_def toString_hex_def toHex_def hex_digit_def
        readUInt16BE_def readInt8_def)
qed

theorem decoder_extracts_fields_witness:
  "25 \<le> length example_md \<and>
   decode example_md =
     Inr \<lparr>b_proxUuid = ''0102030405060708090a0b0c0d0e0f10'',
          b_major = 42, b_minor = 1, b_measuredPower = - 60\<rparr> \<and>
   parse_hex ''0102030405060708090a0b0c0d0e0f10'' = Some (take 16 (drop 4 example_md)) \<and>
   uint (word_cat (example_md ! 20) (example_md ! 21) :: 16 word) = 42 \<and>
   uint (word_cat (example_md ! 22) (example_md ! 23) :: 16 word) = 1 \<and>
   sint (example_md ! 24) = - 60"
proof -
  have len: "25 \<le> length example_md" by (simp add: example_md_def)
  have ex: "decode example_md =
     Inr \<lparr>b_proxUuid = ''0102030405060708090a0b0c0d0e0f10'',
          b_major = 42, b_minor = 1, b_measuredPower = - 60\<rparr>"
    using decoder_extracts_fields[of example_md "0x4C" "0x00" "0x02" "0x15"]
    by (simp add: example_md_def)
  from decoder_extracts_fields[of example_md] len ex
  show ?thesis by auto
qed

section \<open>The zone of an accuracy\<close>

text \<open>
  Claim C6. For every real accuracy the tests of lines 69 to 77 are taken in order:
  below 0 the zone is \<^verbatim>\<open>unknown\<close>, else below 0.5 it is \<^verbatim>\<open>immediate\<close>, else
  below 4.0 it is \<^verbatim>\<open>near\<close>, otherwise \<^verbatim>\<open>far\<close>; an accuracy of exactly 0.5 is
  \<^verbatim>\<open>near\<close> and one of exactly 4.0 is \<^verbatim>\<open>far\<close>.
\<close>

theorem zone_thresholds:
  "(a < 0 \<longrightarrow> classify (Fin a) = ''unknown'') \<and>
   (0 \<le> a \<and> a < 0.5 \<longrightarrow> classify (Fin a) = ''immediate'') \<and>
   (0.5 \<le> a \<and> a < 4.0 \<longrightarrow> classify (Fin a) = ''near'') \<and>
   (4.0 \<le> a \<longrightarrow> classify (Fin a) = ''far'') \<and>
   classify (Fin 0.5) = ''near'' \<and>
   classify (Fin 4.0) = ''far''"
  by (simp add: classify_def)

theorem zone_thresholds_witness:
  "classify (Fin (- 1)) = ''unknown'' \<and>
   classify (Fin 0.25) = ''immediate'' \<and>
   classify (Fin 2) = ''near'' \<and>
   classify (Fin 10) = ''far''"
  using zone_thresholds[of "- 1"] zone_thresholds[of "0.25"] zone_thresholds[of 2]
    zone_thresholds[of 10]
  by simp

section \<open>The discover handler\<close>

text \<open>
  Claim C5. A discovery whose manufacturer data is absent or shorter than 25 bytes does
  not throw: the handler sends exactly the message of lines 47 to 55, in which none of
  the six beacon and proximity fields is set.
\<close>

theorem short_payload_no_beacon:
  assumes "p_manufacturerData p = None \<or>
           (\<exists>md. p_manufacturerData p = Some md \<and> length md < 25)"
  shows "on_discover g p now stamp s = Inr (send (Discovery (base_msg p now stamp s)) s) \<and>
         manufacturerUuid (base_msg p now stamp s) = None \<and>
         major (base_msg p now stamp s) = None \<and>
         minor (base_msg p now stamp s) = None \<and>
         measuredPower (base_msg p now stamp s) = None \<and>
         accuracy (base_msg p now stamp s) = None \<and>
         proximity (base_msg p now stamp s) = None"
  using assms by (auto simp: on_discover_def base_msg_def Let_def)

theorem short_payload_no_beacon_witness:
  "on_discover node_globals (example_peripheral\<lparr>p_manufacturerData := None\<rparr>) 7 ''t''
     (NobleScan example_config ''host'' ''poweredOn'') =
   Inr (send (Discovery (base_msg (example_peripheral\<lparr>p_manufacturerData := None\<rparr>) 7 ''t''
                          (NobleScan example_config ''host'' ''poweredOn'')))
          (NobleScan example_config ''host'' ''poweredOn'')) \<and>
   on_discover node_globals (example_peripheral\<lparr>p_manufacturerData := Some (take 24 example_md)\<rparr>)
     7 ''t'' (NobleScan example_config ''host'' ''poweredOn'') =
   Inr (send (Discovery (base_msg
                 (example_peripheral\<lparr>p_manufacturerData := Some (take 24 example_md)\<rparr>) 7 ''t''
                 (NobleScan example_config ''host'' ''poweredOn'')))
          (NobleScan example_config ''host'' ''poweredOn''))"
proof -
  have a: "p_manufacturerData (example_peripheral\<lparr>p_manufacturerData := None\<rparr>) = None \<or>
           (\<exists>md. p_manufacturerData (example_peripheral\<lparr>p_manufacturerData := None\<rparr>) = Some md \<and> length md < 25)"
    by simp
  have b: "p_manufacturerData (example_peripheral\<lparr>p_manufacturerData := Some (take 24 example_md)\<rparr>) = None \<or>
           (\<exists>md. p_manufacturerData (example_peripheral\<lparr>p_manufacturerData := Some (take 24 example_md)\<rparr>) = Some md \<and> length md < 25)"
    by (simp add: example_md_def)
  show ?thesis
    using short_payload_no_beacon[OF a] short_payload_no_beacon[OF b] by simp
qed




text \<open>
  The block of lines 60 to 85 is reached only by an object that carries the bytes in a
  property \<^verbatim>\<open>manufacturerData\<close> of its own, which the adapter does not deliver. On
  such an object, with at least 25 bytes, line 66 reads an identifier \<^verbatim>\<open>rssi\<close> that is
  declared nowhere (line 54 reads \<^verbatim>\<open>peripheral.rssi\<close>), and the handler throws.
\<close>

lemma top_level_data_throws:
  assumes "p_manufacturerData p = Some md" and "25 \<le> length md"
  shows "on_discover node_globals p now stamp s = Inl ReferenceError"
  using assms by (simp add: on_discover_def decode_ok node_globals_def Let_def)

lemma top_level_example_throws:
  "on_discover node_globals top_level_peripheral 7 ''t''
     (NobleScan example_config ''host'' ''poweredOn'') = Inl ReferenceError"
  by (rule top_level_data_throws[of _ example_md])
     (simp_all add: top_level_peripheral_def example_md_def)

section \<open>The proximity estimator\<close>












section \<open>Starting and stopping the scan\<close>

lemma example_scanning_reached:
  "run g [ScanStarted] (NobleScan example_config ''host'' ''poweredOn'') = Inr example_scanning"
  by (simp add: example_scanning_def NobleScan_def startScan_def noble_startScanning_def startScanning_done_def send_def Let_def)

lemma stop_calls_stopScan:
  "stop_calls (stopScan sc err s) = stop_calls s + (if scanning s then 1 else 0)"
  by (simp add: stop_calls_def stopScan_def noble_stopScanning_def send_def Let_def)

lemma start_calls_stopScan: "start_calls (stopScan sc err s) = start_calls s"
  by (simp add: start_calls_def stopScan_def noble_stopScanning_def send_def Let_def)

lemma start_calls_startScan:
  "start_calls (startScan sc err s) = start_calls s + (if scanning s then 0 else 1)"
  by (simp add: start_calls_def startScan_def noble_startScanning_def startScanning_done_def send_def Let_def)

lemma scanning_startScan:
  "scanning (startScan sc err s) = (scanning s \<or> noble_state s \<noteq> ''poweredOn'')"
  by (simp add: startScan_def noble_startScanning_def startScanning_done_def send_def Let_def)

lemma pending_startScan:
  "pending_start (startScan sc err s) =
     pending_start s + (if \<not> scanning s \<and> noble_state s = ''poweredOn'' then 1 else 0)"
  by (simp add: startScan_def noble_startScanning_def startScanning_done_def send_def Let_def)

lemma on_input_scan_on: "on_input scan_on s = Inr (startScan False False s)"
  by (simp add: on_input_def scan_on_def get_prop_def)

lemma on_input_scan_off: "on_input scan_off s = Inr (stopScan False False s)"
  by (simp add: on_input_def scan_off_def get_prop_def)

text \<open>
  Claim C3, as the code has it. \<^verbatim>\<open>startScan\<close> tests \<^verbatim>\<open>node.scanning\<close> before it
  calls the adapter and leaves the flag as it is; only the completion callback sets it.
  So a request in the state Scanning does nothing, and two requests with the callback of
  the first between them (and no stop) make exactly one start call: with the adapter
  powered on when it confirms the start before the second request, and in every other
  adapter state because the adapter calls the callback before the first call returns.
\<close>

theorem start_once_after_completion:
  "(scanning s \<longrightarrow> startScan a b s = s) \<and>
   (\<not> scanning s \<and> noble_state s = ''poweredOn'' \<longrightarrow>
      \<not> scanning (startScan a b s) \<and>
      start_calls (startScan a b s) = start_calls s + 1 \<and>
      scanning (startScanning_done (startScan a b s)) \<and>
      start_calls (startScan c d (startScanning_done (startScan a b s))) = start_calls s + 1 \<and>
      map_sum id start_calls (run g [Input scan_on, ScanStarted, Input scan_on] s) =
        Inr (start_calls s + 1)) \<and>
   (\<not> scanning s \<and> noble_state s \<noteq> ''poweredOn'' \<longrightarrow>
      scanning (startScan a b s) \<and>
      start_calls (startScan a b s) = start_calls s + 1 \<and>
      start_calls (startScan c d (startScan a b s)) = start_calls s + 1 \<and>
      map_sum id start_calls (run g [Input scan_on, Input scan_on] s) =
        Inr (start_calls s + 1))"
  by (simp add: on_input_scan_on startScan_def noble_startScanning_def startScanning_done_def
      send_def start_calls_def Let_def)

lemma example_states:
  "scanning example_scanning \<and> noble_state example_scanning = ''poweredOn'' \<and>
   start_calls example_scanning = 1 \<and>
   \<not> scanning example_stopped \<and> noble_state example_stopped = ''poweredOn'' \<and>
   start_calls example_stopped = 1"
  by (simp add: example_scanning_def example_stopped_def NobleScan_def startScan_def
      noble_startScanning_def startScanning_done_def stopScan_def noble_stopScanning_def
      stopScanning_done_def send_def start_calls_def Let_def)

lemma example_stopped_reached:
  "run g [ScanStarted, Input scan_off, ScanStopped]
     (NobleScan example_config ''host'' ''poweredOn'') = Inr example_stopped"
  by (simp add: example_scanning_def example_stopped_def NobleScan_def startScan_def
      noble_startScanning_def startScanning_done_def stopScan_def noble_stopScanning_def
      on_input_scan_off send_def Let_def)

theorem start_once_after_completion_witness:
  "\<not> scanning example_stopped \<and> noble_state example_stopped = ''poweredOn'' \<and>
   start_calls example_stopped = 1 \<and>
   map_sum id start_calls
     (run node_globals [Input scan_on, ScanStarted, Input scan_on] example_stopped) = Inr 2 \<and>
   \<not> scanning (NobleScan example_config ''host'' ''poweredOff'') \<and>
   noble_state (NobleScan example_config ''host'' ''poweredOff'') \<noteq> ''poweredOn'' \<and>
   map_sum id start_calls
     (run node_globals [Input scan_on, Input scan_on]
        (NobleScan example_config ''host'' ''poweredOff'')) = Inr 1 \<and>
   scanning example_scanning \<and>
   startScan False False example_scanning = example_scanning"
proof -
  have c: "\<not> scanning (NobleScan example_config ''host'' ''poweredOff'') \<and>
           noble_state (NobleScan example_config ''host'' ''poweredOff'') \<noteq> ''poweredOn''"
    by (simp add: NobleScan_def Let_def)
  have d: "start_calls (NobleScan example_config ''host'' ''poweredOff'') = 0"
    by (simp add: NobleScan_def start_calls_def Let_def)
  show ?thesis
    using start_once_after_completion[of example_stopped False False False False node_globals]
      start_once_after_completion[of "NobleScan example_config ''host'' ''poweredOff''"
        False False False False node_globals]
      start_once_after_completion[of example_scanning False False False False node_globals]
      example_states c d
    by simp
qed

text \<open>
  More generally: once the node is scanning, nothing but the completion of a stop clears
  the flag, and until then no event whatever makes the node call
  \<^verbatim>\<open>noble.startScanning\<close>.
\<close>

lemma scanning_stopScan: "scanning (stopScan a b s) = scanning s"
  by (simp add: stopScan_def noble_stopScanning_def send_def Let_def)

lemma start_calls_on_discover:
  "on_discover g p now stamp s = Inr s' \<Longrightarrow>
     scanning s' = scanning s \<and> start_calls s' = start_calls s"
  by (auto simp: on_discover_def send_def start_calls_def Let_def
      split: option.splits if_splits sum.splits)

lemma start_calls_on_input:
  "scanning s \<Longrightarrow> on_input m s = Inr s' \<Longrightarrow> scanning s' \<and> start_calls s' = start_calls s"
  by (auto simp: on_input_def warn_def start_calls_def scanning_startScan scanning_stopScan
      start_calls_startScan[unfolded start_calls_def] start_calls_stopScan[unfolded start_calls_def]
      split: sum.splits if_splits jsval.splits)

lemma start_calls_step:
  assumes "scanning s" and "ev \<noteq> ScanStopped" and "step g ev s = Inr s'"
  shows "scanning s' \<and> start_calls s' = start_calls s"
proof (cases ev)
  case (Discover p now stamp)
  with assms start_calls_on_discover[of g p now stamp s s'] show ?thesis
    by (auto split: if_splits)
next
  case (StateChange st)
  with assms show ?thesis
    by (auto simp: on_stateChange_def startScan_def noble_startScanning_def startScanning_done_def stopScan_def noble_stopScanning_def send_def start_calls_def Let_def
        split: if_splits)
next
  case (Input m)
  with assms start_calls_on_input[of s m s'] show ?thesis by simp
next
  case ScanStarted
  with assms show ?thesis
    by (auto simp: startScanning_done_def start_calls_def split: if_splits)
next
  case ScanStopped
  with assms show ?thesis by simp
next
  case TimerFired
  with assms show ?thesis
    by (auto simp: timer_fired_def send_def start_calls_def split: option.splits)
next
  case Close
  with assms show ?thesis
    by (auto simp: on_close_def noble_removeAllListeners_def stopScan_def noble_stopScanning_def send_def start_calls_def Let_def)
qed

lemma no_start_while_scanning:
  "scanning s \<Longrightarrow> ScanStopped \<notin> set evs \<Longrightarrow> run g evs s = Inr s' \<Longrightarrow>
     scanning s' \<and> start_calls s' = start_calls s"
proof (induction evs arbitrary: s)
  case Nil
  then show ?case by simp
next
  case (Cons ev evs)
  from Cons.prems obtain s1 where s1: "step g ev s = Inr s1" and r: "run g evs s1 = Inr s'"
    by (auto split: sum.splits)
  from Cons.prems have ne: "ev \<noteq> ScanStopped" and rest: "ScanStopped \<notin> set evs" by auto
  from start_calls_step[OF Cons.prems(1) ne s1]
  have sc: "scanning s1" and eq: "start_calls s1 = start_calls s" by simp_all
  from Cons.IH[OF sc rest r] eq show ?case by simp
qed

text \<open>
  While a start is outstanding on a powered-on adapter the flag is still false, and
  nothing else records the request: a second request then calls
  \<^verbatim>\<open>noble.startScanning\<close> again. So does the command that reaches a node constructed
  with the adapter powered on before the adapter has confirmed the start of line 148,
  and so do two commands in a row to a stopped node.
\<close>

theorem start_twice_counterexample:
  "map_sum id start_calls
     (run node_globals [Input scan_on] (NobleScan example_config ''host'' ''poweredOn'')) =
     Inr 2 \<and>
   map_sum id adapter_calls
     (run node_globals [Input scan_on] (NobleScan example_config ''host'' ''poweredOn'')) =
     Inr [StartScanning [''feaa'', ''180f''] False, StartScanning [''feaa'', ''180f''] False] \<and>
   start_calls example_stopped = 1 \<and>
   map_sum id start_calls (run node_globals [Input scan_on, Input scan_on] example_stopped) =
     Inr 3"
proof -
  have a: "map_sum id adapter_calls
     (run node_globals [Input scan_on] (NobleScan example_config ''host'' ''poweredOn'')) =
     Inr [StartScanning [''feaa'', ''180f''] False, StartScanning [''feaa'', ''180f''] False]"
    by (simp add: on_input_scan_on startScan_def noble_startScanning_def send_def
        NobleScan_def example_config_def Let_def)
  have b: "map_sum id start_calls
     (run node_globals [Input scan_on] (NobleScan example_config ''host'' ''poweredOn'')) =
     Inr 2"
    by (simp add: on_input_scan_on startScan_def noble_startScanning_def send_def
        NobleScan_def start_calls_def Let_def)
  have c: "start_calls example_stopped = 1" using example_states by simp
  have d: "map_sum id start_calls
     (run node_globals [Input scan_on, Input scan_on] example_stopped) = Inr 3"
    by (simp add: on_input_scan_on start_calls_startScan scanning_startScan example_states)
  show ?thesis using a b c d by simp
qed

text \<open>
  Claim C8. The close listener runs \<^verbatim>\<open>stopScan(false, false)\<close> and then
  \<^verbatim>\<open>noble.removeAllListeners()\<close> in every state: when the node is scanning it sends
  the status message with both flags false and makes exactly one stop call, when it is
  stopped it sends nothing and makes no stop call; in both cases the listeners are
  removed, so that later discoveries and state changes reach no handler of the node.
\<close>

theorem shutdown_stops_and_detaches:
  "step g Close s = Inr (on_close s) \<and>
   (scanning s \<longrightarrow>
      stop_calls (on_close s) = stop_calls s + 1 \<and>
      adapter_calls (on_close s) = adapter_calls s @ [StopScanning, RemoveAllListeners] \<and>
      sent (on_close s) =
        sent s @ [Status \<lparr>statusUpdate = True, error = False, stateChange = False,
                          state = noble_state s\<rparr>]) \<and>
   (\<not> scanning s \<longrightarrow>
      stop_calls (on_close s) = stop_calls s \<and>
      adapter_calls (on_close s) = adapter_calls s @ [RemoveAllListeners] \<and>
      sent (on_close s) = sent s) \<and>
   start_calls (on_close s) = start_calls s \<and>
   \<not> noble_listening (on_close s) \<and>
   step g (Discover p now stamp) (on_close s) = Inr (on_close s) \<and>
   step g (StateChange st) (on_close s) = Inr ((on_close s)\<lparr>noble_state := st\<rparr>)"
  by (simp add: on_close_def noble_removeAllListeners_def stopScan_def noble_stopScanning_def send_def stop_calls_def start_calls_def Let_def)

theorem shutdown_stops_and_detaches_witness:
  "scanning example_scanning \<and>
   stop_calls example_scanning = 0 \<and>
   stop_calls (on_close example_scanning) = 1 \<and>
   adapter_calls (on_close example_scanning) =
     [StartScanning [''feaa'', ''180f''] False, StopScanning, RemoveAllListeners] \<and>
   \<not> noble_listening (on_close example_scanning) \<and>
   \<not> scanning (NobleScan example_config ''host'' ''poweredOff'') \<and>
   stop_calls (on_close (NobleScan example_config ''host'' ''poweredOff'')) = 0 \<and>
   adapter_calls (on_close (NobleScan example_config ''host'' ''poweredOff'')) =
     [RemoveAllListeners] \<and>
   \<not> noble_listening (on_close (NobleScan example_config ''host'' ''poweredOff''))"
proof -
  have a: "scanning example_scanning"
    by (simp add: example_scanning_def startScanning_done_def)
  have b: "adapter_calls example_scanning = [StartScanning [''feaa'', ''180f''] False]"
    by (simp add: example_scanning_def startScanning_done_def NobleScan_def startScan_def noble_startScanning_def
        send_def example_config_def Let_def)
  have c: "\<not> scanning (NobleScan example_config ''host'' ''poweredOff'')"
    by (simp add: NobleScan_def Let_def)
  have d: "adapter_calls (NobleScan example_config ''host'' ''poweredOff'') = []"
    by (simp add: NobleScan_def Let_def)
  have e: "stop_calls example_scanning = 0" by (simp add: stop_calls_def b)
  have f: "stop_calls (NobleScan example_config ''host'' ''poweredOff'') = 0"
    by (simp add: stop_calls_def d)
  show ?thesis
    using shutdown_stops_and_detaches[of node_globals example_scanning]
      shutdown_stops_and_detaches[of node_globals "NobleScan example_config ''host'' ''poweredOff''"]
      a b c d e f
    by simp
qed

section \<open>The adapter that is not ready at construction\<close>

lemma NobleScan_not_ready:
  "st \<noteq> ''poweredOn'' \<Longrightarrow>
     sent (NobleScan n h st) = [] \<and>
     adapter_calls (NobleScan n h st) = [] \<and>
     warnings (NobleScan n h st) = [WarnUnableToStart st] \<and>
     timer (NobleScan n h st) = Some (3000, not_ready_msg st) \<and>
     noble_state (NobleScan n h st) = st \<and>
     \<not> scanning (NobleScan n h st)"
  by (simp add: NobleScan_def not_ready_msg_def Let_def)

lemma timer_on_close: "timer (on_close s) = timer s"
  by (simp add: on_close_def noble_removeAllListeners_def stopScan_def noble_stopScanning_def send_def Let_def)

lemma sent_on_close_stopped: "\<not> scanning s \<Longrightarrow> sent (on_close s) = sent s"
  by (simp add: on_close_def noble_removeAllListeners_def stopScan_def noble_stopScanning_def Let_def)

lemma sent_timer_fired:
  "timer s = Some (d, m) \<Longrightarrow> sent (timer_fired s) = sent s @ [Status m]"
  by (simp add: timer_fired_def send_def)

text \<open>
  Claim C7, as the code has it. When the adapter is not powered on at construction, the
  constructor warns at once, sends nothing, and hands \<^verbatim>\<open>setTimeout\<close> a closure with a
  delay of 3000 ms; when the timer fires, the closure sends the status message with
  \<^verbatim>\<open>error\<close> true and \<^verbatim>\<open>stateChange\<close> false. The close listener does not clear the
  timer: after a shutdown the timer still fires and the message is still sent.
\<close>

theorem deferred_status_survives_shutdown:
  assumes "st \<noteq> ''poweredOn''"
  shows "sent (NobleScan n h st) = [] \<and>
         warnings (NobleScan n h st) = [WarnUnableToStart st] \<and>
         timer (NobleScan n h st) = Some (3000, not_ready_msg st) \<and>
         error (not_ready_msg st) \<and> \<not> stateChange (not_ready_msg st) \<and>
         map_sum id sent (run g [TimerFired] (NobleScan n h st)) =
           Inr [Status (not_ready_msg st)] \<and>
         map_sum id sent (run g [Close, TimerFired] (NobleScan n h st)) =
           Inr [Status (not_ready_msg st)]"
  using NobleScan_not_ready[OF assms, of n h]
  by (simp add: sent_timer_fired timer_on_close sent_on_close_stopped not_ready_msg_def)

theorem deferred_status_survives_shutdown_witness:
  "''poweredOff'' \<noteq> ''poweredOn'' \<and>
   warnings (NobleScan example_config ''host'' ''poweredOff'') = [WarnUnableToStart ''poweredOff''] \<and>
   timer (NobleScan example_config ''host'' ''poweredOff'') =
     Some (3000, not_ready_msg ''poweredOff'') \<and>
   map_sum id sent (run node_globals [TimerFired] (NobleScan example_config ''host'' ''poweredOff'')) =
     Inr [Status (not_ready_msg ''poweredOff'')] \<and>
   map_sum id sent
     (run node_globals [Close, TimerFired] (NobleScan example_config ''host'' ''poweredOff'')) =
     Inr [Status (not_ready_msg ''poweredOff'')]"
proof -
  have a: "''poweredOff'' \<noteq> ''poweredOn''" by simp
  show ?thesis
    using deferred_status_survives_shutdown[OF a, of example_config "''host''" node_globals] a
    by simp
qed

text \<open>
  The cancellation the specification asks for is not in the code: shutdown, then the
  timer, and the error-flagged status message is sent.
\<close>

theorem deferred_status_cancel_counterexample:
  "map_sum id sent
     (run node_globals [Close, TimerFired] (NobleScan example_config ''host'' ''poweredOff'')) =
   Inr [Status \<lparr>statusUpdate = True, error = True, stateChange = False,
                state = ''poweredOff''\<rparr>]"
  by (simp add: NobleScan_def on_close_def noble_removeAllListeners_def stopScan_def noble_stopScanning_def timer_fired_def send_def Let_def)

lemma timer_startScan: "timer (startScan a b s) = timer s"
  by (simp add: startScan_def noble_startScanning_def startScanning_done_def send_def Let_def)

lemma timer_stopScan: "timer (stopScan a b s) = timer s"
  by (simp add: stopScan_def noble_stopScanning_def send_def Let_def)

lemma timer_on_stateChange: "timer (on_stateChange st s) = timer s"
  by (simp add: on_stateChange_def timer_startScan timer_stopScan)

lemma noble_state_startScan: "noble_state (startScan a b s) = noble_state s"
  by (simp add: startScan_def noble_startScanning_def startScanning_done_def send_def Let_def)

lemma noble_state_stopScan: "noble_state (stopScan a b s) = noble_state s"
  by (simp add: stopScan_def noble_stopScanning_def send_def Let_def)

lemma noble_state_on_stateChange: "noble_state (on_stateChange st s) = noble_state s"
  by (simp add: on_stateChange_def noble_state_startScan noble_state_stopScan)

lemma timer_on_discover: "on_discover g p now stamp s = Inr s' \<Longrightarrow> timer s' = timer s"
  by (auto simp: on_discover_def send_def Let_def split: option.splits if_splits sum.splits)

lemma timer_on_input: "on_input m s = Inr s' \<Longrightarrow> timer s' = timer s"
  by (auto simp: on_input_def warn_def timer_startScan timer_stopScan
      split: sum.splits if_splits jsval.splits)

lemma timer_step:
  "ev \<noteq> TimerFired \<Longrightarrow> step g ev s = Inr s' \<Longrightarrow> timer s' = timer s"
  by (cases ev)
     (auto simp: timer_on_discover timer_on_input timer_on_stateChange timer_on_close
        startScanning_done_def stopScanning_done_def Let_def split: if_splits)

lemma timer_kept:
  "TimerFired \<notin> set evs \<Longrightarrow> run g evs s = Inr s' \<Longrightarrow> timer s' = timer s"
proof (induction evs arbitrary: s)
  case Nil
  then show ?case by simp
next
  case (Cons ev evs)
  from Cons.prems obtain s1 where s1: "step g ev s = Inr s1" and r: "run g evs s1 = Inr s'"
    by (auto split: sum.splits)
  from Cons.prems have "ev \<noteq> TimerFired" and "TimerFired \<notin> set evs" by auto
  with Cons.IH[OF _ r] timer_step[OF _ s1] show ?case by simp
qed

text \<open>
  Whatever happens before the timer fires (and does not throw), the closure still holds
  the message built at construction.
\<close>

lemma deferred_status_any_events:
  assumes "st \<noteq> ''poweredOn''" and "TimerFired \<notin> set evs"
    and "run g evs (NobleScan n h st) = Inr s"
  shows "step g TimerFired s = Inr (timer_fired s) \<and>
         sent (timer_fired s) = sent s @ [Status (not_ready_msg st)]"
  using timer_kept[OF assms(2) assms(3)] NobleScan_not_ready[OF assms(1), of n h]
  by (simp add: sent_timer_fired)

lemma run_stateChanges:
  "\<exists>s'. run g (map StateChange sts) s = Inr s' \<and> noble_state s' = last (noble_state s # sts)"
proof (induction sts arbitrary: s)
  case Nil
  then show ?case by simp
next
  case (Cons st sts)
  obtain s1 where s1: "step g (StateChange st) s = Inr s1" and n1: "noble_state s1 = st"
    by (cases "noble_listening s") (simp_all add: Let_def noble_state_on_stateChange)
  from Cons.IH[of s1] obtain s' where "run g (map StateChange sts) s1 = Inr s'"
    and "noble_state s' = last (noble_state s1 # sts)" by blast
  with s1 n1 show ?case by simp
qed

text \<open>
  Claim C10. The message of the deferred status is built at line 151, before the timer
  is armed, so its \<^verbatim>\<open>state\<close> is the adapter state read at construction. For every
  sequence of adapter state changes during the delay the run does not throw,
  \<^verbatim>\<open>noble.state\<close> follows the changes, and the message sent when the timer fires
  still reports the state of construction time.
\<close>

theorem deferred_status_reports_construction_state:
  assumes "st \<noteq> ''poweredOn''"
  shows "\<exists>s. run g (map StateChange sts) (NobleScan n h st) = Inr s \<and>
             noble_state s = last (st # sts) \<and>
             step g TimerFired s = Inr (timer_fired s) \<and>
             sent (timer_fired s) =
               sent s @ [Status \<lparr>statusUpdate = True, error = True, stateChange = False,
                                 state = st\<rparr>]"
proof -
  from run_stateChanges[of g sts "NobleScan n h st"]
  obtain s where r: "run g (map StateChange sts) (NobleScan n h st) = Inr s"
    and ns: "noble_state s = last (noble_state (NobleScan n h st) # sts)" by blast
  have nt: "TimerFired \<notin> set (map StateChange sts)" by auto
  from deferred_status_any_events[OF assms nt r] ns NobleScan_not_ready[OF assms, of n h] r
  show ?thesis by (auto simp: not_ready_msg_def)
qed

theorem deferred_status_reports_construction_state_witness:
  "''unknown'' \<noteq> ''poweredOn'' \<and>
   (\<exists>s. run node_globals (map StateChange [''poweredOff'', ''resetting''])
           (NobleScan example_config ''host'' ''unknown'') = Inr s \<and>
        noble_state s = ''resetting'' \<and>
        sent (timer_fired s) =
          sent s @ [Status \<lparr>statusUpdate = True, error = True, stateChange = False,
                            state = ''unknown''\<rparr>])"
proof -
  have a: "''unknown'' \<noteq> ''poweredOn''" by simp
  from deferred_status_reports_construction_state[OF a,
      of node_globals "[''poweredOff'', ''resetting'']" example_config "''host''"]
  show ?thesis by auto
qed

section \<open>Inbound messages\<close>

text \<open>
  Claim C9 asks for a warning on every message that is not a scan command. The message
  \<^verbatim>\<open>{ payload: null }\<close> is none, but it passes the test \<^verbatim>\<open>typeof msg.payload == "object"\<close>
  of line 168, and \<^verbatim>\<open>msg.payload.hasOwnProperty\<close> then throws a TypeError: the
  handler never reaches the warning of line 177.
\<close>

theorem null_payload_throws:
  "on_input null_payload s = Inl TypeError \<and>
   run g [Input null_payload] s = Inl TypeError \<and>
   \<not> is_scan_command null_payload"
  by (simp add: on_input_def null_payload_def get_prop_def is_scan_command_def)

text \<open>
  The other messages that are no scan command are rejected as the specification says:
  whenever the handler returns, it has only added the warning. It throws exactly when the
  payload is \<^verbatim>\<open>null\<close> or when an own property \<^verbatim>\<open>hasOwnProperty\<close> shadows the method.
\<close>

lemma enableScan_yes_rejected:
  "\<not> is_scan_command enableScan_yes \<and>
   on_input enableScan_yes s = Inr (warn WarnIncorrectInput s)"
  by (simp add: on_input_def enableScan_yes_def get_prop_def is_scan_command_def)

lemma rejected_input_warns:
  assumes "\<not> is_scan_command m" and "on_input m s = Inr s'"
  shows "s' = warn WarnIncorrectInput s"
  using assms
  by (auto simp: on_input_def is_scan_command_def get_prop_def
      split: sum.splits if_splits jsval.splits option.splits)

lemma warn_only:
  "scanning (warn w s) = scanning s \<and> sent (warn w s) = sent s \<and>
   adapter_calls (warn w s) = adapter_calls s \<and> warnings (warn w s) = warnings s @ [w]"
  by (simp add: warn_def)

lemma on_input_throws_iff:
  "(\<exists>e. on_input m s = Inl e) \<longleftrightarrow>
     (map_of m ''hasOwnProperty'' \<noteq> None \<or>
      map_of m ''payload'' = Some JNull \<or>
      (\<exists>ps. map_of m ''payload'' = Some (JObj ps) \<and> map_of ps ''hasOwnProperty'' \<noteq> None))"
  by (auto simp: on_input_def get_prop_def
      split: sum.splits if_splits jsval.splits option.splits)

end
